theory Spec2Isabelle
  imports Complex_Main "HOL-Library.Multiset" "HOL-Library.List_Lexorder" "HOL-Library.Char_ord"
begin

section \<open>The Green Ghost Index: data model\<close>

text \<open>
  The pipeline works on pandas DataFrames. A cell of a DataFrame is a missing value
  (\<open>NaN\<close>), a number or a text. Numbers are modelled as reals: the float64 values of the
  program are read as the reals they denote, a literal such as \<open>0.05\<close> is the real it is
  written as, and infinities do not occur.

  A DataFrame is the list of its rows in order, each with its index label.
\<close>

datatype cell = NaN | Num real | Str string

type_synonym 'r dataframe = "(nat \<times> 'r) list"

datatype error = ValueError | IndexError | TypeError | ZeroDivisionError | OSError

text \<open>
  A call that can raise returns \<open>Inl\<close> of the error or \<open>Inr\<close> of its value;
  \<open>on_success r f\<close> continues with \<open>f\<close> on the value of \<open>r\<close> and passes an error on.
\<close>

definition on_success :: "error + 'a \<Rightarrow> ('a \<Rightarrow> error + 'b) \<Rightarrow> error + 'b" where
  "on_success r f = (case r of Inl e \<Rightarrow> Inl e | Inr v \<Rightarrow> f v)"

text \<open>
  The master table of \<open>create_master_data\<close> has fourteen columns, in the order of the
  final column selection of that function. \<open>country\<close> is the join key, a text column:
  \<open>None\<close> is a missing country. \<open>run_satellite_audit\<close> adds the column
  \<open>ndvi_change_metric\<close>, \<open>train_ghost_risk_model\<close> adds \<open>ghost_risk_score\<close>
  (the second column of \<open>predict_proba\<close>, a number).
\<close>

record project =
  project_id :: cell
  project_name :: cell
  country :: "string option"
  latitude :: cell
  longitude :: cell
  total_loan_usd :: cell
  start_year :: cell
  funded_capacity_mw :: cell
  project_type :: cell
  cpi_score :: cell
  rule_of_law_score :: cell
  is_ghost :: cell
  audit_status :: cell
  gem_status :: cell

record audited = project +
  ndvi_change_metric :: cell

record scored = audited +
  ghost_risk_score :: real

section \<open>data\_pipeline.py\<close>

subsection \<open>load\_data\<close>

text \<open>
  Column names are ASCII texts. \<open>str.lower\<close> maps the letters A to Z to a to z,
  \<open>str.replace(' ', '_')\<close> replaces every space, \<open>str.strip()\<close> removes the white
  space characters (codes 9 to 13 and 28 to 32) at both ends.
\<close>

definition py_lower :: "char \<Rightarrow> char" where
  "py_lower c = (if CHR ''A'' \<le> c \<and> c \<le> CHR ''Z'' then char_of (of_char c + (32::nat)) else c)"

definition py_isspace :: "char \<Rightarrow> bool" where
  "py_isspace c = (let n = (of_char c :: nat) in (9 \<le> n \<and> n \<le> 13) \<or> (28 \<le> n \<and> n \<le> 32))"

definition str_lower :: "string \<Rightarrow> string" where
  "str_lower s = map py_lower s"

definition str_replace :: "char \<Rightarrow> char \<Rightarrow> string \<Rightarrow> string" where
  "str_replace old new s = map (\<lambda>c. if c = old then new else c) s"

definition str_strip :: "string \<Rightarrow> string" where
  "str_strip s = rev (dropWhile py_isspace (rev (dropWhile py_isspace s)))"

text \<open>\<open>df.columns.str.lower().str.replace(' ', '_').str.strip()\<close>, for one name.\<close>

definition normalize_column :: "string \<Rightarrow> string" where
  "normalize_column name = str_strip (str_replace CHR '' '' CHR ''_'' (str_lower name))"

definition endswith :: "string \<Rightarrow> string \<Rightarrow> bool" where
  "endswith s suf = (length suf \<le> length s \<and> drop (length s - length suf) s = suf)"

text \<open>\<open>sub in s\<close> for texts.\<close>

fun contains_str :: "string \<Rightarrow> string \<Rightarrow> bool" where
  "contains_str [] sub = (sub = [])"
| "contains_str (c # cs) sub = (take (length sub) (c # cs) = sub \<or> contains_str cs sub)"

text \<open>
  A table as a reader returns it: the column names and the rows of cells. The three
  readers of pandas that \<open>load_data\<close> calls are parameters; each returns a table or
  raises.
\<close>

record raw_table =
  columns :: "string list"
  rows :: "cell list list"

record readers =
  read_csv :: "string \<Rightarrow> error + raw_table"
  read_csv_skip_bad_lines :: "string \<Rightarrow> error + raw_table"
  read_excel :: "string \<Rightarrow> error + raw_table"

definition load_data :: "readers \<Rightarrow> string \<Rightarrow> error + raw_table" where
  "load_data io file_path =
     (case (if endswith file_path ''.csv'' then
              (if contains_str file_path ''adb_projects_raw.csv''
               then read_csv_skip_bad_lines io file_path
               else read_csv io file_path)
            else if endswith file_path ''.xlsx'' \<or> endswith file_path ''.xls''
            then read_excel io file_path
            else Inl ValueError) of
        Inl e \<Rightarrow> Inl e
      | Inr df \<Rightarrow> Inr (df\<lparr>columns := map normalize_column (columns df)\<rparr>))"

definition example_readers :: readers where
  "example_readers =
     \<lparr>read_csv = (\<lambda>p. Inr \<lparr>columns = ['' Country '', ''Capacity (MW)''],
                                 rows = [[Str ''A'', Num 5]]\<rparr>),
      read_csv_skip_bad_lines = (\<lambda>p. Inl OSError),
      read_excel = (\<lambda>p. Inl OSError)\<rparr>"

subsection \<open>create\_master\_data\<close>



text \<open>\<open>Series.mean()\<close>: the mean of the values that are not missing, NaN when there is none.\<close>

definition nanmean :: "real option list \<Rightarrow> real option" where
  "nanmean vs =
     (let xs = concat (map (\<lambda>v. case v of None \<Rightarrow> [] | Some x \<Rightarrow> [x]) vs)
      in if xs = [] then None else Some (sum_list xs / real (length xs)))"







section \<open>satellite\_audit.py\<close>

text \<open>\<open>Series.isin(values)\<close> for a list of texts: a missing or numeric cell is in no such list.\<close>

definition isin :: "cell \<Rightarrow> string list \<Rightarrow> bool" where
  "isin c vs = (case c of Str s \<Rightarrow> s \<in> set vs | _ \<Rightarrow> False)"

text \<open>\<open>series < x\<close> on a float column: a comparison with NaN is False.\<close>

definition cell_lt :: "cell \<Rightarrow> real \<Rightarrow> bool" where
  "cell_lt c x = (case c of Num v \<Rightarrow> v < x | _ \<Rightarrow> False)"

text \<open>
  \<open>np.random.uniform(low, high, size)\<close> maps the next \<open>size\<close> variates \<open>u\<close> of the
  generator's stream, each in \<open>[0, 1)\<close>, to \<open>low + (high - low) * u\<close>. The stream that
  \<open>np.random.seed(42)\<close> fixes is the parameter \<open>rng\<close>; \<open>uniform_draw rng start low high k\<close>
  consumes the variates \<open>start, \<dots>, start + k - 1\<close>.
\<close>

definition uniform_draw :: "(nat \<Rightarrow> real) \<Rightarrow> nat \<Rightarrow> real \<Rightarrow> real \<Rightarrow> nat \<Rightarrow> real list" where
  "uniform_draw rng start low high k =
     map (\<lambda>j. low + (high - low) * rng (start + j)) [0..<k]"

text \<open>
  \<open>df.loc[mask, col] = values\<close>: the rows where the mask holds take the new values in
  order, the other rows keep theirs.
\<close>

fun loc_assign :: "bool list \<Rightarrow> 'a list \<Rightarrow> 'a list \<Rightarrow> 'a list" where
  "loc_assign (m # ms) (v # vs) news =
     (if m then (case news of x # xs \<Rightarrow> x # loc_assign ms vs xs | [] \<Rightarrow> v # loc_assign ms vs [])
      else v # loc_assign ms vs news)"
| "loc_assign _ vs _ = vs"

text \<open>\<open>df[col] = values\<close>: the column is written row by row, the index is kept.\<close>

definition set_column :: "('v \<Rightarrow> 'r \<Rightarrow> 's) \<Rightarrow> 'r dataframe \<Rightarrow> 'v list \<Rightarrow> 's dataframe" where
  "set_column upd df vals = map (\<lambda>((i, r), v). (i, upd v r)) (zip df vals)"

definition add_ndvi :: "real \<Rightarrow> project \<Rightarrow> audited" where
  "add_ndvi v r = project.extend r (audited.fields (Num v))"

definition astype_int :: "bool \<Rightarrow> cell" where
  "astype_int b = Num (if b then 1 else 0)"

text \<open>
  \<open>run_satellite_audit\<close>, the simulated path that the source runs: the metric column is
  drawn for all rows, redrawn from the lower range for the cancelled and announced rows,
  then the label and the audit status are derived.
\<close>

definition run_satellite_audit :: "(nat \<Rightarrow> real) \<Rightarrow> project dataframe \<Rightarrow> audited dataframe" where
  "run_satellite_audit rng master_df =
     (let n = length master_df;
          metric = uniform_draw rng 0 0.001 0.2 n;
          mask_no_change = map (\<lambda>(i, r). isin (gem_status r) [''cancelled'', ''announced'']) master_df;
          metric = loc_assign mask_no_change metric
                     (uniform_draw rng n 0.001 0.01 (length (filter id mask_no_change)));
          df = set_column add_ndvi master_df metric;
          active_mask = map (\<lambda>(i, r). isin (gem_status r)
                     [''operating'', ''construction'', ''pre-construction'', ''retired'']) df;
          low_change_mask = map (\<lambda>(i, r). cell_lt (ndvi_change_metric r) 0.05) df;
          df = set_column (\<lambda>b r. r\<lparr>is_ghost := astype_int b\<rparr>) df
                 (map (\<lambda>(l, a). l \<and> a) (zip low_change_mask active_mask));
          df = set_column (\<lambda>s r. r\<lparr>audit_status := Str s\<rparr>) df
                 (map (\<lambda>(i, r). if is_ghost r = Num 1 then ''Ghost Flagged''
                                  else ''Activity Visible/Inactive'') df)
      in df)"

text \<open>
  The labelling rule in the words of the specification: the label is 1 iff the metric is
  below 0.05 and the status is one of operating, construction, pre-construction, retired.
\<close>

definition ghost_label_rule :: "cell \<Rightarrow> cell \<Rightarrow> real" where
  "ghost_label_rule metric status =
     (if (case metric of Num m \<Rightarrow> m < 0.05 | _ \<Rightarrow> False) \<and>
         (status = Str ''operating'' \<or> status = Str ''construction'' \<or>
          status = Str ''pre-construction'' \<or> status = Str ''retired'')
      then 1 else 0)"

text \<open>What the last three assignments of \<open>run_satellite_audit\<close> do to one row.\<close>

definition label_row :: "audited \<Rightarrow> audited" where
  "label_row r =
     (let g = astype_int (cell_lt (ndvi_change_metric r) 0.05 \<and>
                isin (gem_status r) [''operating'', ''construction'', ''pre-construction'', ''retired''])
      in r\<lparr>is_ghost := g,
           audit_status := Str (if g = Num 1 then ''Ghost Flagged'' else ''Activity Visible/Inactive'')\<rparr>)"

section \<open>model\_builder.py\<close>

subsection \<open>train\_ghost\_risk\_model\<close>

text \<open>
  The first filter of the training step, \<open>df[df['ndvi_change_metric'] != 999.0]\<close>: a
  missing metric is not equal to the sentinel.
\<close>

definition drop_sentinel :: "('a audited_scheme) dataframe \<Rightarrow> ('a audited_scheme) dataframe" where
  "drop_sentinel df = filter (\<lambda>(i, r). ndvi_change_metric r \<noteq> Num 999) df"

text \<open>The filter \<open>df.dropna(subset=['is_ghost'])\<close> of the training step.\<close>

definition dropna_is_ghost :: "('a project_scheme) dataframe \<Rightarrow> ('a project_scheme) dataframe" where
  "dropna_is_ghost df = filter (\<lambda>(i, r). is_ghost r \<noteq> NaN) df"

text \<open>
  The three feature columns, in the order of the list \<open>features\<close>. \<open>X\<close> is a
  DataFrame of feature rows under the index of \<open>df\<close>; \<open>X.mean()\<close> is a feature row too.
\<close>

record feature_row =
  x_total_loan_usd :: cell
  x_cpi_score :: cell
  x_ndvi_change_metric :: cell

definition features_of :: "'a audited_scheme \<Rightarrow> feature_row" where
  "features_of r =
     \<lparr>x_total_loan_usd = total_loan_usd r, x_cpi_score = cpi_score r,
      x_ndvi_change_metric = ndvi_change_metric r\<rparr>"

text \<open>
  The calls into scikit-learn and joblib are parameters of the model:
  \<^item> \<open>n_test_samples n\<close> is \<open>ceil(0.2 * n)\<close> as the library computes it in floating point;
  \<^item> \<open>permutation n\<close> is the permutation of \<open>0, \<dots>, n - 1\<close> that \<open>random_state=42\<close> fixes;
  \<^item> \<open>fit\<close> is the construction and fitting of the random forest;
  \<^item> \<open>predict\<close> and \<open>predict_proba\<close> are the methods of the fitted model, the latter
    returning one row of class probabilities per input row;
  \<^item> \<open>dump\<close> is \<open>joblib.dump\<close> to the model path;
  \<^item> \<open>report\<close> computes the three entries of \<open>metrics\<close> from the model,
    \<open>y_test\<close>, \<open>y_pred\<close> and \<open>y_proba\<close>.
  Each call that can raise returns an error or a value.
\<close>

record ('m, 'r) sklearn =
  n_test_samples :: "nat \<Rightarrow> nat"
  permutation :: "nat \<Rightarrow> nat list"
  fit :: "feature_row list \<Rightarrow> cell list \<Rightarrow> error + 'm"
  predict :: "'m \<Rightarrow> feature_row list \<Rightarrow> error + cell list"
  predict_proba :: "'m \<Rightarrow> feature_row list \<Rightarrow> error + real list list"
  dump :: "'m \<Rightarrow> error option"
  report :: "'m \<Rightarrow> cell list \<Rightarrow> cell list \<Rightarrow> real list \<Rightarrow> error + 'r"

text \<open>Positional indexing of an array or table by a list of positions.\<close>

definition safe_indexing :: "'a list \<Rightarrow> nat list \<Rightarrow> error + 'a list" where
  "safe_indexing xs idx =
     (if list_all (\<lambda>j. j < length xs) idx then Inr (map (\<lambda>j. xs ! j) idx) else Inl IndexError)"

text \<open>
  \<open>train_test_split(X, y, test_size=0.2, random_state=42)\<close>: the test partition is the
  first \<open>n_test\<close> positions of the permutation, the training partition the
  \<open>n - n_test\<close> positions after them; an empty training partition is a ValueError.
\<close>

definition train_test_split ::
  "('m, 'r) sklearn \<Rightarrow> 'a list \<Rightarrow> 'b list \<Rightarrow> error + ('a list \<times> 'a list \<times> 'b list \<times> 'b list)" where
  "train_test_split sk X y =
     (let n = length X;
          n_test = n_test_samples sk n;
          n_train = n - n_test;
          ind_test = take n_test (permutation sk n);
          ind_train = take n_train (drop n_test (permutation sk n))
      in if n_train = 0 then Inl ValueError
         else on_success (safe_indexing X ind_train) (\<lambda>X_train.
              on_success (safe_indexing X ind_test) (\<lambda>X_test.
              on_success (safe_indexing y ind_train) (\<lambda>y_train.
              on_success (safe_indexing y ind_test) (\<lambda>y_test.
                Inr (X_train, X_test, y_train, y_test))))))"

text \<open>
  \<open>X_train.mean()\<close>, column by column: the mean of the numbers of the column, NaN when
  it has none, a TypeError when the column holds a text.
\<close>

definition is_Str :: "cell \<Rightarrow> bool" where
  "is_Str c = (case c of Str s \<Rightarrow> True | _ \<Rightarrow> False)"

definition col_mean :: "cell list \<Rightarrow> error + cell" where
  "col_mean cs =
     (if list_ex is_Str cs then Inl TypeError
      else case nanmean (map (\<lambda>c. case c of Num v \<Rightarrow> Some v | _ \<Rightarrow> None) cs) of
             None \<Rightarrow> Inr NaN
           | Some m \<Rightarrow> Inr (Num m))"

definition column_means :: "feature_row dataframe \<Rightarrow> error + feature_row" where
  "column_means X =
     on_success (col_mean (map (\<lambda>(i, x). x_total_loan_usd x) X)) (\<lambda>m1.
     on_success (col_mean (map (\<lambda>(i, x). x_cpi_score x) X)) (\<lambda>m2.
     on_success (col_mean (map (\<lambda>(i, x). x_ndvi_change_metric x) X)) (\<lambda>m3.
       Inr \<lparr>x_total_loan_usd = m1, x_cpi_score = m2, x_ndvi_change_metric = m3\<rparr>)))"



text \<open>\<open>X.fillna(mean_imputer)\<close>: a missing cell takes the value of its column in \<open>mean_imputer\<close>.\<close>

definition fill :: "cell \<Rightarrow> cell \<Rightarrow> cell" where
  "fill c m = (if c = NaN then m else c)"

definition fillna :: "feature_row dataframe \<Rightarrow> feature_row \<Rightarrow> feature_row dataframe" where
  "fillna X m =
     map (\<lambda>(i, x). (i, \<lparr>x_total_loan_usd = fill (x_total_loan_usd x) (x_total_loan_usd m),
                        x_cpi_score = fill (x_cpi_score x) (x_cpi_score m),
                        x_ndvi_change_metric = fill (x_ndvi_change_metric x) (x_ndvi_change_metric m)\<rparr>)) X"

text \<open>\<open>array[:, 1]\<close> on the matrix of class probabilities: an IndexError when it has one column.\<close>

definition column1 :: "real list list \<Rightarrow> error + real list" where
  "column1 probs = (if list_all (\<lambda>r. 2 \<le> length r) probs then Inr (map (\<lambda>r. r ! 1) probs) else Inl IndexError)"

definition add_score :: "real \<Rightarrow> audited \<Rightarrow> scored" where
  "add_score v r = audited.extend r (scored.fields v)"

text \<open>
  The local variables of \<open>train_ghost_risk_model\<close> after its preprocessing (the two
  filters, the split and the imputation of the two partitions): \<open>eligible_df\<close> is \<open>df\<close>,
  \<open>X_train_raw\<close> and \<open>X_test_raw\<close> are the partitions as the split returns them,
  \<open>X_train\<close> and \<open>X_test\<close> the partitions after \<open>fillna\<close>.
\<close>

record preprocessed =
  eligible_df :: "audited dataframe"
  X_train_raw :: "feature_row dataframe"
  X_test_raw :: "feature_row dataframe"
  y_train :: "cell list"
  y_test :: "cell list"
  mean_imputer :: feature_row
  X_train :: "feature_row dataframe"
  X_test :: "feature_row dataframe"

definition preprocess :: "('m, 'r) sklearn \<Rightarrow> audited dataframe \<Rightarrow> error + preprocessed" where
  "preprocess sk df0 =
     (let df = drop_sentinel df0;
          df = dropna_is_ghost df;
          X = map (\<lambda>(i, r). (i, features_of r)) df;
          y = map (\<lambda>(i, r). is_ghost r) df
      in on_success (train_test_split sk X y) (\<lambda>(X_tr, X_te, y_tr, y_te).
         on_success (column_means X_tr) (\<lambda>m.
           Inr \<lparr>eligible_df = df, X_train_raw = X_tr, X_test_raw = X_te,
                y_train = y_tr, y_test = y_te, mean_imputer = m,
                X_train = fillna X_tr m, X_test = fillna X_te m\<rparr>)))"

text \<open>The matrix that is scored: \<open>X_full = df[features].fillna(mean_imputer)\<close>.\<close>

definition X_full :: "preprocessed \<Rightarrow> feature_row dataframe" where
  "X_full p = fillna (map (\<lambda>(i, r). (i, features_of r)) (eligible_df p)) (mean_imputer p)"

text \<open>
  \<open>train_ghost_risk_model\<close>. The function works on a copy of its argument. Assigning the
  score column raises a ValueError when the number of scores is not the number of rows.
\<close>

definition train_ghost_risk_model ::
  "('m, 'r) sklearn \<Rightarrow> audited dataframe \<Rightarrow> error + ('r \<times> scored dataframe)" where
  "train_ghost_risk_model sk df0 =
     on_success (preprocess sk df0) (\<lambda>p.
     on_success (fit sk (map snd (X_train p)) (y_train p)) (\<lambda>model.
     on_success (predict sk model (map snd (X_test p))) (\<lambda>y_pred.
     on_success (predict_proba sk model (map snd (X_test p))) (\<lambda>pr.
     on_success (column1 pr) (\<lambda>y_proba.
     on_success (case dump sk model of Some e \<Rightarrow> Inl e | None \<Rightarrow> Inr ()) (\<lambda>_.
     on_success (predict_proba sk model (map snd (X_full p))) (\<lambda>pf.
     on_success (column1 pf) (\<lambda>scores.
       if length scores \<noteq> length (eligible_df p) then Inl ValueError
       else on_success (report sk model (y_test p) y_pred y_proba) (\<lambda>metrics.
              Inr (metrics, set_column add_score (eligible_df p) scores))))))))))"

subsection \<open>create\_final\_index\<close>

text \<open>The eleven columns of the final index.\<close>

record index_row =
  fi_project_id :: cell
  fi_project_name :: cell
  fi_country :: "string option"
  fi_latitude :: cell
  fi_longitude :: cell
  fi_ghost_risk_score :: real
  fi_is_ghost :: cell
  fi_funded_capacity_mw :: cell
  fi_project_type :: cell
  fi_total_loan_usd :: cell
  fi_audit_status :: cell

definition select_columns :: "scored \<Rightarrow> index_row" where
  "select_columns r =
     \<lparr>fi_project_id = project_id r, fi_project_name = project_name r, fi_country = country r,
      fi_latitude = latitude r, fi_longitude = longitude r,
      fi_ghost_risk_score = ghost_risk_score r, fi_is_ghost = is_ghost r,
      fi_funded_capacity_mw = funded_capacity_mw r, fi_project_type = project_type r,
      fi_total_loan_usd = total_loan_usd r, fi_audit_status = audit_status r\<rparr>"

text \<open>
  \<open>df.sort_values(by='ghost_risk_score', ascending=False)\<close>: pandas reverses the rows,
  sorts them in ascending order of the score and reverses the result. The ascending sort
  is modelled as a stable one; the library leaves the order of rows with equal scores
  open, and no property below depends on it.
\<close>

definition sort_values_descending :: "('r \<Rightarrow> real) \<Rightarrow> 'r dataframe \<Rightarrow> 'r dataframe" where
  "sort_values_descending by df = rev (sort_key (\<lambda>(i, r). by r) (rev df))"

text \<open>
  The artifacts of \<open>create_final_index\<close>: the table it returns, the rows of the CSV
  file (written without the index) and the records of the JSON file (name, country,
  latitude, longitude and score of the rows with both coordinates).
\<close>

record index_artifacts =
  final_index :: "index_row dataframe"
  csv_file :: "index_row list"
  json_file :: "(cell \<times> string option \<times> cell \<times> cell \<times> real) list"

definition create_final_index :: "scored dataframe \<Rightarrow> index_artifacts" where
  "create_final_index df =
     (let final_index = sort_values_descending ghost_risk_score df;
          final_index = map (\<lambda>(i, r). (i, select_columns r)) final_index;
          map_data = filter (\<lambda>(i, r). fi_latitude r \<noteq> NaN \<and> fi_longitude r \<noteq> NaN) final_index;
          map_data = map (\<lambda>(i, r). (fi_project_name r, fi_country r, fi_latitude r,
                                      fi_longitude r, fi_ghost_risk_score r)) map_data
      in \<lparr>final_index = final_index, csv_file = map snd final_index, json_file = map_data\<rparr>)"

section \<open>impact\_analysis.py\<close>

text \<open>
  \<open>pd.to_numeric(column, errors='coerce')\<close>: a number stays, a text becomes the number
  it parses to or NaN. The parser of the library is the parameter \<open>parse\<close>.
  \<open>fillna(0)\<close> then replaces NaN by 0.
\<close>

definition to_numeric :: "(string \<Rightarrow> real option) \<Rightarrow> cell \<Rightarrow> cell" where
  "to_numeric parse c =
     (case c of NaN \<Rightarrow> NaN | Num v \<Rightarrow> Num v
      | Str s \<Rightarrow> (case parse s of None \<Rightarrow> NaN | Some v \<Rightarrow> Num v))"

definition fillna0 :: "cell \<Rightarrow> cell" where
  "fillna0 c = (if c = NaN then Num 0 else c)"

text \<open>\<open>Series.sum()\<close> of a numeric column: missing cells are skipped.\<close>

definition col_sum :: "cell list \<Rightarrow> real" where
  "col_sum cs = sum_list (map (\<lambda>c. case c of Num v \<Rightarrow> v | _ \<Rightarrow> 0) cs)"

text \<open>Division, raising on a zero divisor.\<close>

definition py_div :: "real \<Rightarrow> real \<Rightarrow> error + real" where
  "py_div a b = (if b = 0 then Inl ZeroDivisionError else Inr (a / b))"

record impact_metrics =
  risk_threshold :: real
  total_projects :: nat
  total_portfolio_loan_usd :: real
  total_portfolio_capacity_mw :: real
  audited_lost_loan_usd :: real
  audited_lost_capacity_mw :: real
  audited_ghost_project_count :: nat
  predicted_at_risk_loan_usd :: real
  predicted_at_risk_capacity_mw :: real
  predicted_at_risk_project_count :: nat
  pct_loans_at_risk :: real
  pct_capacity_at_risk :: real

text \<open>
  \<open>measure_impact\<close> assigns to two columns of the DataFrame object it is given. The
  objects live in a store, a function from references to tables; the function takes the
  store and the reference of its argument and returns the store after the assignments
  with the metrics.
\<close>

type_synonym store = "nat \<Rightarrow> scored dataframe"

definition measure_impact ::
  "(string \<Rightarrow> real option) \<Rightarrow> store \<Rightarrow> nat \<Rightarrow> real \<Rightarrow> error + (store \<times> impact_metrics)" where
  "measure_impact parse st df threshold =
     (let st = st(df := set_column (\<lambda>v r. r\<lparr>total_loan_usd := v\<rparr>) (st df)
                   (map (\<lambda>(i, r). fillna0 (to_numeric parse (total_loan_usd r))) (st df)));
          st = st(df := set_column (\<lambda>v r. r\<lparr>funded_capacity_mw := v\<rparr>) (st df)
                   (map (\<lambda>(i, r). fillna0 (to_numeric parse (funded_capacity_mw r))) (st df)));
          total_loan = col_sum (map (\<lambda>(i, r). total_loan_usd r) (st df));
          total_capacity = col_sum (map (\<lambda>(i, r). funded_capacity_mw r) (st df));
          audited_ghosts_df = filter (\<lambda>(i, r). is_ghost r = Num 1) (st df);
          predicted_ghosts_df = filter (\<lambda>(i, r). threshold \<le> ghost_risk_score r) (st df);
          at_risk_loan = col_sum (map (\<lambda>(i, r). total_loan_usd r) predicted_ghosts_df);
          at_risk_capacity = col_sum (map (\<lambda>(i, r). funded_capacity_mw r) predicted_ghosts_df)
      in on_success (if 0 < total_loan then py_div at_risk_loan total_loan else Inr 0) (\<lambda>pct_loans.
         on_success (if 0 < total_capacity then py_div at_risk_capacity total_capacity else Inr 0)
           (\<lambda>pct_capacity.
              Inr (st,
                \<lparr>risk_threshold = threshold,
                 total_projects = length (st df),
                 total_portfolio_loan_usd = total_loan,
                 total_portfolio_capacity_mw = total_capacity,
                 audited_lost_loan_usd = col_sum (map (\<lambda>(i, r). total_loan_usd r) audited_ghosts_df),
                 audited_lost_capacity_mw = col_sum (map (\<lambda>(i, r). funded_capacity_mw r) audited_ghosts_df),
                 audited_ghost_project_count = length audited_ghosts_df,
                 predicted_at_risk_loan_usd = at_risk_loan,
                 predicted_at_risk_capacity_mw = at_risk_capacity,
                 predicted_at_risk_project_count = length predicted_ghosts_df,
                 pct_loans_at_risk = pct_loans,
                 pct_capacity_at_risk = pct_capacity\<rparr>))))"

text \<open>
  What the two assignments of \<open>measure_impact\<close> do to one row, and the number that
  replaces a cell in the words of the claim: the cell's number, the number its text
  parses to, or 0 when the cell is missing or does not parse.
\<close>

definition coerce_row :: "(string \<Rightarrow> real option) \<Rightarrow> scored \<Rightarrow> scored" where
  "coerce_row parse r =
     r\<lparr>total_loan_usd := fillna0 (to_numeric parse (total_loan_usd r)),
       funded_capacity_mw := fillna0 (to_numeric parse (funded_capacity_mw r))\<rparr>"

definition number_or_zero :: "(string \<Rightarrow> real option) \<Rightarrow> cell \<Rightarrow> real" where
  "number_or_zero parse c =
     (case c of NaN \<Rightarrow> 0 | Num v \<Rightarrow> v
      | Str s \<Rightarrow> (case parse s of None \<Rightarrow> 0 | Some v \<Rightarrow> v))"

section \<open>main.py\<close>

text \<open>
  Steps 4 and 5 of \<open>main\<close>: \<open>measure_impact(df_with_score, risk_threshold=0.8)\<close>, then
  \<open>create_final_index(df_with_score, \<dots>)\<close> on the same object.
\<close>

definition impact_then_index ::
  "(string \<Rightarrow> real option) \<Rightarrow> store \<Rightarrow> nat \<Rightarrow> error + (store \<times> impact_metrics \<times> index_artifacts)" where
  "impact_then_index parse st df_with_score =
     on_success (measure_impact parse st df_with_score 0.8) (\<lambda>(st, impact).
       Inr (st, impact, create_final_index (st df_with_score)))"

section \<open>Example data\<close>

text \<open>A master table row as \<open>create_master_data\<close> leaves it, for the examples.\<close>

definition example_project :: "string \<Rightarrow> string \<Rightarrow> string \<Rightarrow> project" where
  "example_project name ctry status =
     \<lparr>project_id = NaN, project_name = Str name, country = Some ctry, latitude = Num 10,
      longitude = Num 20, total_loan_usd = NaN, start_year = Num 2020,
      funded_capacity_mw = Num 50, project_type = Str ''solar'', cpi_score = Num 40,
      rule_of_law_score = NaN, is_ghost = NaN, audit_status = NaN, gem_status = Str status\<rparr>"

definition example_master :: "project dataframe" where
  "example_master = [(0, example_project ''P0'' ''A'' ''operating''),
                     (1, example_project ''P1'' ''A'' ''cancelled'')]"

text \<open>A scored row with the given financing, capacity and score, for the examples.\<close>

definition example_scored :: "string \<Rightarrow> cell \<Rightarrow> cell \<Rightarrow> real \<Rightarrow> scored" where
  "example_scored name loan cap s =
     \<lparr>project_id = NaN, project_name = Str name, country = Some ''A'', latitude = Num 10,
      longitude = Num 20, total_loan_usd = loan, start_year = Num 2020,
      funded_capacity_mw = cap, project_type = Str ''solar'', cpi_score = Num 40,
      rule_of_law_score = NaN, is_ghost = Num 1, audit_status = Str ''Ghost Flagged'',
      gem_status = Str ''operating'', ndvi_change_metric = Num 0.02, ghost_risk_score = s\<rparr>"

text \<open>
  An audited row with the given financing, metric and label, and an instance of the
  library parameters: a fifth of the rows (rounded up) is the test partition, the
  permutation is the reversal, and the fitted model gives a row with a metric below
  0.05 the probabilities 0.25 and 0.75, any other row 0.875 and 0.125.
\<close>

definition example_audited :: "string \<Rightarrow> cell \<Rightarrow> cell \<Rightarrow> cell \<Rightarrow> audited" where
  "example_audited name loan metric label =
     \<lparr>project_id = NaN, project_name = Str name, country = Some ''A'', latitude = Num 10,
      longitude = Num 20, total_loan_usd = loan, start_year = Num 2020,
      funded_capacity_mw = Num 50, project_type = Str ''solar'', cpi_score = Num 40,
      rule_of_law_score = NaN, is_ghost = label, audit_status = Str ''Activity Visible/Inactive'',
      gem_status = Str ''operating'', ndvi_change_metric = metric\<rparr>"

definition example_sklearn :: "(unit, unit) sklearn" where
  "example_sklearn =
     \<lparr>n_test_samples = (\<lambda>n. (n + 4) div 5),
      permutation = (\<lambda>n. rev [0..<n]),
      fit = (\<lambda>X y. Inr ()),
      predict = (\<lambda>m X. Inr (map (\<lambda>x. Num (if cell_lt (x_ndvi_change_metric x) 0.05 then 1 else 0)) X)),
      predict_proba = (\<lambda>m X. Inr (map (\<lambda>x. if cell_lt (x_ndvi_change_metric x) 0.05
                                              then [0.25, 0.75] else [0.875, 0.125]) X)),
      dump = (\<lambda>m. None),
      report = (\<lambda>m y_test y_pred y_proba. Inr ())\<rparr>"

definition example_audited_table :: "audited dataframe" where
  "example_audited_table =
     [(0, example_audited ''P0'' NaN (Num 0.02) (Num 1)),
      (1, example_audited ''P1'' (Num 100) (Num 0.1) (Num 0)),
      (2, example_audited ''P2'' (Num 300) (Num 999) (Num 0)),
      (3, example_audited ''P3'' (Num 200) (Num 0.03) (Num 1)),
      (4, example_audited ''P4'' NaN (Num 0.2) (Num 0)),
      (5, example_audited ''P5'' (Num 100) (Num 0.1) NaN)]"

section \<open>Properties\<close>

subsection \<open>Properties of the loader and the merge\<close>

text \<open>
  Claim C8. \<open>load_data\<close> lower-cases every column name and replaces every space by an
  underscore before it strips white space, so the spaces around a name are underscores
  by the time \<open>strip\<close> runs and stay in the name: the column ' Country ' of a CSV file is
  returned as '\_country\_', with a leading and a trailing separator.
\<close>

theorem load_data_keeps_outer_separators:
  "normalize_column '' Country '' = ''_country_'' \<and>
   load_data example_readers ''data/raw/gem_trackers_raw.csv'' =
     Inr \<lparr>columns = [''_country_'', ''capacity_(mw)''], rows = [[Str ''A'', Num 5]]\<rparr>"
  by code_simp











subsection \<open>Properties of the audit\<close>

lemma length_loc_assign: "length (loc_assign ms vs news) = length vs"
  by (induction ms vs news rule: loc_assign.induct) (auto split: list.splits)

lemma length_uniform_draw: "length (uniform_draw rng s lo hi n) = n"
  by (simp add: uniform_draw_def)

lemma set_column_map:
  "set_column upd df (map f df) = map (\<lambda>(i, r). (i, upd (f (i, r)) r)) df"
  by (induction df) (auto simp: set_column_def)

lemma zip_map_and:
  "map (\<lambda>(l, a). l \<and> a) (zip (map f xs) (map g xs)) = map (\<lambda>x. f x \<and> g x) xs"
  by (induction xs) auto

lemma set_column_elem:
  "(i, s) \<in> set (set_column upd df vals) \<Longrightarrow> \<exists>r v. (i, r) \<in> set df \<and> s = upd v r"
  by (auto simp: set_column_def dest!: set_zip_leftD)

lemma map_fst_set_column:
  "length vals = length df \<Longrightarrow> map fst (set_column upd df vals) = map fst df"
  by (induction df arbitrary: vals) (auto simp: set_column_def length_Suc_conv)

lemma run_satellite_audit_rows:
  "run_satellite_audit rng master_df =
     map (\<lambda>(i, r). (i, label_row r))
       (set_column add_ndvi master_df
          (loc_assign (map (\<lambda>(i, r). isin (gem_status r) [''cancelled'', ''announced'']) master_df)
             (uniform_draw rng 0 0.001 0.2 (length master_df))
             (uniform_draw rng (length master_df) 0.001 0.01
                (length (filter id (map (\<lambda>(i, r). isin (gem_status r) [''cancelled'', ''announced''])
                   master_df))))))"
proof -
  define X where "X = set_column add_ndvi master_df
          (loc_assign (map (\<lambda>(i, r). isin (gem_status r) [''cancelled'', ''announced'']) master_df)
             (uniform_draw rng 0 0.001 0.2 (length master_df))
             (uniform_draw rng (length master_df) 0.001 0.01
                (length (filter id (map (\<lambda>(i, r). isin (gem_status r) [''cancelled'', ''announced''])
                   master_df)))))"
  define Y where "Y = set_column (\<lambda>b r. r\<lparr>is_ghost := astype_int b\<rparr>) X
                 (map (\<lambda>(l, a). l \<and> a) (zip (map (\<lambda>(i, r). cell_lt (ndvi_change_metric r) 0.05) X)
                    (map (\<lambda>(i, r). isin (gem_status r)
                     [''operating'', ''construction'', ''pre-construction'', ''retired'']) X)))"
  have Y: "Y = map (\<lambda>(i, r). (i, r\<lparr>is_ghost := astype_int (cell_lt (ndvi_change_metric r) 0.05 \<and>
                isin (gem_status r) [''operating'', ''construction'', ''pre-construction'', ''retired''])\<rparr>)) X"
    unfolding Y_def zip_map_and set_column_map by (simp add: split_beta)
  have "run_satellite_audit rng master_df =
          set_column (\<lambda>s r. r\<lparr>audit_status := Str s\<rparr>) Y
                 (map (\<lambda>(i, r). if is_ghost r = Num 1 then ''Ghost Flagged''
                                  else ''Activity Visible/Inactive'') Y)"
    unfolding run_satellite_audit_def Let_def X_def Y_def ..
  also have "\<dots> = map (\<lambda>(i, r). (i, label_row r)) X"
    unfolding set_column_map Y by (simp add: split_beta label_row_def Let_def)
  finally show ?thesis unfolding X_def .
qed

lemma label_row_is_ghost:
  "is_ghost (label_row r) = Num (ghost_label_rule (ndvi_change_metric r) (gem_status r))"
  by (auto simp: label_row_def Let_def astype_int_def ghost_label_rule_def cell_lt_def isin_def
        split: cell.splits)

lemma label_row_frame:
  "ndvi_change_metric (label_row r) = ndvi_change_metric r" "gem_status (label_row r) = gem_status r"
  by (simp_all add: label_row_def Let_def)

lemma label_row_status:
  "audit_status (label_row r) =
     Str (if is_ghost (label_row r) = Num 1 then ''Ghost Flagged'' else ''Activity Visible/Inactive'')"
  by (simp add: label_row_def Let_def)

lemma audit_row_labelled:
  "(i, s) \<in> set (run_satellite_audit rng df) \<Longrightarrow> \<exists>r. s = label_row r"
  by (auto simp: run_satellite_audit_rows)

lemma audit_index:
  "map fst (run_satellite_audit rng df) = map fst df"
  by (simp add: run_satellite_audit_rows split_beta o_def map_fst_set_column
        length_loc_assign length_uniform_draw)

lemma example_audit:
  "run_satellite_audit (\<lambda>_. 1 / 10) example_master =
     [(0, label_row (add_ndvi 0.0209 (example_project ''P0'' ''A'' ''operating''))),
      (1, label_row (add_ndvi 0.0019 (example_project ''P1'' ''A'' ''cancelled'')))]"
  by (simp add: run_satellite_audit_rows example_master_def example_project_def set_column_def
        uniform_draw_def isin_def)

text \<open>
  Claim C1. In the table that \<open>run_satellite_audit\<close> returns, the label of every row is
  the labelling rule applied to the row's metric and status: \<open>is_ghost\<close> is 1 iff the
  metric is below 0.05 and the status is operating, construction, pre-construction or
  retired, and 0 otherwise; a cancelled or announced row has label 0 whatever its metric.
\<close>

theorem ghost_label_is_rule:
  "(i, r) \<in> set (run_satellite_audit rng master_df) \<Longrightarrow>
     is_ghost r = Num (ghost_label_rule (ndvi_change_metric r) (gem_status r)) \<and>
     (is_ghost r = Num 1 \<longleftrightarrow>
        (\<exists>m. ndvi_change_metric r = Num m \<and> m < 0.05) \<and>
        gem_status r \<in> {Str ''operating'', Str ''construction'', Str ''pre-construction'',
                         Str ''retired''}) \<and>
     (is_ghost r \<noteq> Num 1 \<longrightarrow> is_ghost r = Num 0) \<and>
     (gem_status r \<in> {Str ''cancelled'', Str ''announced''} \<longrightarrow> is_ghost r = Num 0)"
proof -
  assume "(i, r) \<in> set (run_satellite_audit rng master_df)"
  then obtain r0 where r: "r = label_row r0"
    using audit_row_labelled by blast
  have g: "is_ghost r = Num (ghost_label_rule (ndvi_change_metric r) (gem_status r))"
    by (simp add: r label_row_is_ghost label_row_frame)
  show ?thesis
    unfolding g by (auto simp: ghost_label_rule_def split: cell.splits)
qed

theorem ghost_label_is_rule_witness:
  "(0, label_row (add_ndvi 0.0209 (example_project ''P0'' ''A'' ''operating'')))
      \<in> set (run_satellite_audit (\<lambda>_. 1 / 10) example_master) \<and>
   (1, label_row (add_ndvi 0.0019 (example_project ''P1'' ''A'' ''cancelled'')))
      \<in> set (run_satellite_audit (\<lambda>_. 1 / 10) example_master) \<and>
   is_ghost (label_row (add_ndvi 0.0209 (example_project ''P0'' ''A'' ''operating''))) =
     Num (ghost_label_rule (Num 0.0209) (Str ''operating'')) \<and>
   ghost_label_rule (Num 0.0209) (Str ''operating'') = 1 \<and>
   is_ghost (label_row (add_ndvi 0.0019 (example_project ''P1'' ''A'' ''cancelled''))) =
     Num (ghost_label_rule (Num 0.0019) (Str ''cancelled'')) \<and>
   ghost_label_rule (Num 0.0019) (Str ''cancelled'') = 0"
proof -
  let ?r0 = "label_row (add_ndvi 0.0209 (example_project ''P0'' ''A'' ''operating''))"
  let ?r1 = "label_row (add_ndvi 0.0019 (example_project ''P1'' ''A'' ''cancelled''))"
  have m0: "(0, ?r0) \<in> set (run_satellite_audit (\<lambda>_. 1 / 10) example_master)"
    and m1: "(1, ?r1) \<in> set (run_satellite_audit (\<lambda>_. 1 / 10) example_master)"
    by (simp_all add: example_audit)
  have f0: "ndvi_change_metric ?r0 = Num 0.0209" "gem_status ?r0 = Str ''operating''"
    and f1: "ndvi_change_metric ?r1 = Num 0.0019" "gem_status ?r1 = Str ''cancelled''"
    by (simp_all add: label_row_frame add_ndvi_def example_project_def project.defs audited.defs)
  have v: "ghost_label_rule (Num 0.0209) (Str ''operating'') = 1"
      "ghost_label_rule (Num 0.0019) (Str ''cancelled'') = 0"
    by (simp_all add: ghost_label_rule_def)
  from ghost_label_is_rule [OF m0] have g0: "is_ghost ?r0 = Num (ghost_label_rule (Num 0.0209) (Str ''operating''))"
    unfolding f0 by (rule conjunct1)
  from ghost_label_is_rule [OF m1] have g1: "is_ghost ?r1 = Num (ghost_label_rule (Num 0.0019) (Str ''cancelled''))"
    unfolding f1 by (rule conjunct1)
  from m0 m1 g0 g1 v show ?thesis by blast
qed

text \<open>
  Claim C10. In the table that \<open>run_satellite_audit\<close> returns, every row has
  \<open>is_ghost\<close> equal to 0 or 1, never missing, and \<open>audit_status\<close> equal to one of the
  two texts, 'Ghost Flagged' exactly when \<open>is_ghost\<close> is 1. The index of the table is
  unchanged, and the missing-label filter of the training step removes no row of it,
  neither before nor after the sentinel filter.
\<close>

theorem run_satellite_audit_labels_total:
  "(\<forall>(i, r) \<in> set (run_satellite_audit rng master_df).
      (is_ghost r = Num 0 \<or> is_ghost r = Num 1) \<and>
      (audit_status r = Str ''Ghost Flagged'' \<or> audit_status r = Str ''Activity Visible/Inactive'') \<and>
      (audit_status r = Str ''Ghost Flagged'' \<longleftrightarrow> is_ghost r = Num 1)) \<and>
   map fst (run_satellite_audit rng master_df) = map fst master_df \<and>
   dropna_is_ghost (run_satellite_audit rng master_df) = run_satellite_audit rng master_df \<and>
   dropna_is_ghost (drop_sentinel (run_satellite_audit rng master_df)) =
     drop_sentinel (run_satellite_audit rng master_df)"
proof -
  have rows: "(is_ghost r = Num 0 \<or> is_ghost r = Num 1) \<and>
      (audit_status r = Str ''Ghost Flagged'' \<or> audit_status r = Str ''Activity Visible/Inactive'') \<and>
      (audit_status r = Str ''Ghost Flagged'' \<longleftrightarrow> is_ghost r = Num 1)"
    if "(i, r) \<in> set (run_satellite_audit rng master_df)" for i r
  proof -
    from that obtain r0 where r: "r = label_row r0"
      using audit_row_labelled by blast
    have "is_ghost r = Num 0 \<or> is_ghost r = Num 1"
      by (simp add: r label_row_is_ghost ghost_label_rule_def)
    then show ?thesis
      by (auto simp: r label_row_status)
  qed
  have keep: "is_ghost r \<noteq> NaN" if "(i, r) \<in> set (run_satellite_audit rng master_df)" for i r
    using rows [OF that] by auto
  have "dropna_is_ghost (run_satellite_audit rng master_df) = run_satellite_audit rng master_df"
    unfolding dropna_is_ghost_def by (rule filter_True) (auto dest: keep)
  moreover have "dropna_is_ghost (drop_sentinel (run_satellite_audit rng master_df)) =
     drop_sentinel (run_satellite_audit rng master_df)"
    unfolding dropna_is_ghost_def by (rule filter_True) (auto simp: drop_sentinel_def dest: keep)
  ultimately show ?thesis
    using rows audit_index by blast
qed

theorem run_satellite_audit_labels_total_witness:
  "(0, label_row (add_ndvi 0.0209 (example_project ''P0'' ''A'' ''operating'')))
      \<in> set (run_satellite_audit (\<lambda>_. 1 / 10) example_master) \<and>
   is_ghost (label_row (add_ndvi 0.0209 (example_project ''P0'' ''A'' ''operating''))) = Num 1 \<and>
   (audit_status (label_row (add_ndvi 0.0209 (example_project ''P0'' ''A'' ''operating''))) =
      Str ''Ghost Flagged'') = (is_ghost (label_row (add_ndvi 0.0209 (example_project ''P0'' ''A'' ''operating''))) = Num 1) \<and>
   map (\<lambda>(i, r). (is_ghost r, audit_status r)) (run_satellite_audit (\<lambda>_. 1 / 10) example_master) =
     [(Num 1, Str ''Ghost Flagged''), (Num 0, Str ''Activity Visible/Inactive'')] \<and>
   dropna_is_ghost (run_satellite_audit (\<lambda>_. 1 / 10) example_master) =
     run_satellite_audit (\<lambda>_. 1 / 10) example_master"
proof -
  let ?r0 = "label_row (add_ndvi 0.0209 (example_project ''P0'' ''A'' ''operating''))"
  have m0: "(0, ?r0) \<in> set (run_satellite_audit (\<lambda>_. 1 / 10) example_master)"
    by (simp add: example_audit)
  have v: "map (\<lambda>(i, r). (is_ghost r, audit_status r)) (run_satellite_audit (\<lambda>_. 1 / 10) example_master) =
     [(Num 1, Str ''Ghost Flagged''), (Num 0, Str ''Activity Visible/Inactive'')]"
    by (simp add: example_audit label_row_def add_ndvi_def example_project_def project.defs
        audited.defs astype_int_def cell_lt_def isin_def Let_def)
  have g0: "is_ghost ?r0 = Num 1"
    by (simp add: label_row_def add_ndvi_def example_project_def project.defs
        audited.defs astype_int_def cell_lt_def isin_def Let_def)
  note t = run_satellite_audit_labels_total [of "\<lambda>_. 1 / 10" example_master]
  from t m0 have "(audit_status ?r0 = Str ''Ghost Flagged'') = (is_ghost ?r0 = Num 1)"
    by blast
  moreover from t have "dropna_is_ghost (run_satellite_audit (\<lambda>_. 1 / 10) example_master) =
     run_satellite_audit (\<lambda>_. 1 / 10) example_master"
    by blast
  ultimately show ?thesis
    using m0 v g0 by blast
qed

subsection \<open>Properties of the impact step and the final index\<close>

lemma on_success_Inr [simp]: "on_success (Inr v) f = f v"
  by (simp add: on_success_def)

lemma on_success_Inl [simp]: "on_success (Inl e) f = Inl e"
  by (simp add: on_success_def)

lemma set_column_map_map:
  "set_column upd (map g df) (map h df) = map (\<lambda>x. (fst (g x), upd (h x) (snd (g x)))) df"
  by (induction df) (auto simp: set_column_def split_beta)

lemma guarded_div: "(if 0 < t then py_div a t else Inr 0) = Inr (if 0 < t then a / t else 0)"
  by (simp add: py_div_def)

lemma fillna0_to_numeric: "fillna0 (to_numeric parse c) = Num (number_or_zero parse c)"
  by (simp add: fillna0_def to_numeric_def number_or_zero_def split: cell.splits option.splits)

lemma measure_impact_store:
  "\<exists>m. measure_impact parse st df threshold =
          Inr (st(df := map (\<lambda>(i, r). (i, coerce_row parse r)) (st df)), m) \<and>
        pct_loans_at_risk m =
          (if 0 < total_portfolio_loan_usd m
           then predicted_at_risk_loan_usd m / total_portfolio_loan_usd m else 0) \<and>
        pct_capacity_at_risk m =
          (if 0 < total_portfolio_capacity_mw m
           then predicted_at_risk_capacity_mw m / total_portfolio_capacity_mw m else 0)"
proof -
  have s: "(st(df := set_column (\<lambda>v r. r\<lparr>total_loan_usd := v\<rparr>) (st df)
                   (map (\<lambda>(i, r). fillna0 (to_numeric parse (total_loan_usd r))) (st df))))
            (df := set_column (\<lambda>v r. r\<lparr>funded_capacity_mw := v\<rparr>)
                   ((st(df := set_column (\<lambda>v r. r\<lparr>total_loan_usd := v\<rparr>) (st df)
                   (map (\<lambda>(i, r). fillna0 (to_numeric parse (total_loan_usd r))) (st df)))) df)
                   (map (\<lambda>(i, r). fillna0 (to_numeric parse (funded_capacity_mw r)))
                      ((st(df := set_column (\<lambda>v r. r\<lparr>total_loan_usd := v\<rparr>) (st df)
                   (map (\<lambda>(i, r). fillna0 (to_numeric parse (total_loan_usd r))) (st df)))) df)))
         = st(df := map (\<lambda>(i, r). (i, coerce_row parse r)) (st df))"
    by (simp add: set_column_map set_column_map_map case_prod_unfold coerce_row_def o_def)
  show ?thesis
    unfolding measure_impact_def Let_def s guarded_div on_success_Inr
    by (rule exI, rule conjI, rule refl) simp
qed



lemma mset_sort_values_descending: "mset (sort_values_descending by df) = mset df"
  by (simp add: sort_values_descending_def)

lemma sorted_sort_values_descending:
  "sorted_wrt (\<lambda>a b. by (snd a) \<ge> by (snd b)) (sort_values_descending by df)"
proof -
  have "sorted (map (\<lambda>(i, r). by r) (sort_key (\<lambda>(i, r). by r) (rev df)))"
    by (rule sorted_sort_key)
  then have "sorted_wrt (\<lambda>a b. by (snd a) \<le> by (snd b)) (sort_key (\<lambda>(i, r). by r) (rev df))"
    by (simp add: sorted_map split_beta)
  then show ?thesis
    by (simp add: sort_values_descending_def sorted_wrt_rev)
qed

lemma final_index_rows:
  "final_index (create_final_index df) =
     map (\<lambda>(i, r). (i, select_columns r)) (sort_values_descending ghost_risk_score df)"
  by (simp add: create_final_index_def Let_def)

lemma csv_file_rows:
  "csv_file (create_final_index df) = map snd (final_index (create_final_index df))"
  by (simp add: create_final_index_def Let_def)

lemma final_index_descending:
  "sorted_wrt (\<lambda>a b. fi_ghost_risk_score (snd a) \<ge> fi_ghost_risk_score (snd b))
     (final_index (create_final_index df))"
proof -
  have "sorted_wrt (\<lambda>a b. ghost_risk_score (snd a) \<ge> ghost_risk_score (snd b))
          (sort_values_descending ghost_risk_score df)"
    by (rule sorted_sort_values_descending)
  then show ?thesis
    by (simp add: final_index_rows sorted_wrt_map split_beta select_columns_def)
qed

lemma final_index_mset:
  "mset (final_index (create_final_index df)) = mset (map (\<lambda>(i, r). (i, select_columns r)) df)"
proof -
  have "mset (map (\<lambda>(i, r). (i, select_columns r)) (sort_values_descending ghost_risk_score df)) =
        image_mset (\<lambda>(i, r). (i, select_columns r)) (mset (sort_values_descending ghost_risk_score df))"
    by simp
  also have "\<dots> = image_mset (\<lambda>(i, r). (i, select_columns r)) (mset df)"
    by (simp only: mset_sort_values_descending)
  finally show ?thesis
    by (simp add: final_index_rows)
qed

text \<open>
  Claim C6. The table that \<open>create_final_index\<close> returns is in descending order of the
  risk score: the score of every row is at least the score of the row after it. The
  table holds every row of the scored input exactly once, with its index and its
  eleven selected columns.
\<close>

theorem create_final_index_sorted:
  "(\<forall>k. Suc k < length (final_index (create_final_index df)) \<longrightarrow>
        fi_ghost_risk_score (snd (final_index (create_final_index df) ! k)) \<ge>
        fi_ghost_risk_score (snd (final_index (create_final_index df) ! Suc k))) \<and>
   sorted_wrt (\<lambda>a b. fi_ghost_risk_score (snd a) \<ge> fi_ghost_risk_score (snd b))
     (final_index (create_final_index df)) \<and>
   mset (final_index (create_final_index df)) = mset (map (\<lambda>(i, r). (i, select_columns r)) df) \<and>
   length (final_index (create_final_index df)) = length df"
proof -
  let ?fi = "final_index (create_final_index df)"
  have s: "sorted_wrt (\<lambda>a b. fi_ghost_risk_score (snd a) \<ge> fi_ghost_risk_score (snd b)) ?fi"
    by (rule final_index_descending)
  have adj: "fi_ghost_risk_score (snd (?fi ! k)) \<ge> fi_ghost_risk_score (snd (?fi ! Suc k))"
    if "Suc k < length ?fi" for k
    using sorted_wrt_nth_less [OF s, of k "Suc k"] that by simp
  have m: "mset ?fi = mset (map (\<lambda>(i, r). (i, select_columns r)) df)"
    by (rule final_index_mset)
  from m have "size (mset ?fi) = size (mset (map (\<lambda>(i, r). (i, select_columns r)) df))"
    by simp
  then have "length ?fi = length df"
    by simp
  with s adj m show ?thesis by blast
qed

theorem create_final_index_sorted_witness:
  "map (\<lambda>(i, r). (i, fi_ghost_risk_score r))
     (final_index (create_final_index
        [(0, example_scored ''P0'' NaN NaN 0.3), (1, example_scored ''P1'' NaN NaN 0.9),
         (2, example_scored ''P2'' NaN NaN 0.5)])) = [(1, 0.9), (2, 0.5), (0, 0.3)] \<and>
   Suc 0 < length (final_index (create_final_index
        [(0, example_scored ''P0'' NaN NaN 0.3), (1, example_scored ''P1'' NaN NaN 0.9),
         (2, example_scored ''P2'' NaN NaN 0.5)])) \<and>
   fi_ghost_risk_score (snd (final_index (create_final_index
        [(0, example_scored ''P0'' NaN NaN 0.3), (1, example_scored ''P1'' NaN NaN 0.9),
         (2, example_scored ''P2'' NaN NaN 0.5)]) ! 0)) \<ge>
   fi_ghost_risk_score (snd (final_index (create_final_index
        [(0, example_scored ''P0'' NaN NaN 0.3), (1, example_scored ''P1'' NaN NaN 0.9),
         (2, example_scored ''P2'' NaN NaN 0.5)]) ! Suc 0))"
proof -
  let ?df = "[(0::nat, example_scored ''P0'' NaN NaN 0.3), (1, example_scored ''P1'' NaN NaN 0.9),
         (2, example_scored ''P2'' NaN NaN 0.5)]"
  have v: "map (\<lambda>(i, r). (i, fi_ghost_risk_score r)) (final_index (create_final_index ?df)) =
             [(1, 0.9), (2, 0.5), (0, 0.3)]"
    by (simp add: final_index_rows sort_values_descending_def select_columns_def example_scored_def)
  have l: "Suc 0 < length (final_index (create_final_index ?df))"
    by (simp add: final_index_rows sort_values_descending_def)
  from create_final_index_sorted [of ?df] l
  have "fi_ghost_risk_score (snd (final_index (create_final_index ?df) ! 0)) \<ge>
        fi_ghost_risk_score (snd (final_index (create_final_index ?df) ! Suc 0))"
    by blast
  with v l show ?thesis by blast
qed

lemma coerce_row_columns:
  "coerce_row parse r =
     r\<lparr>total_loan_usd := Num (number_or_zero parse (total_loan_usd r)),
       funded_capacity_mw := Num (number_or_zero parse (funded_capacity_mw r))\<rparr>"
  by (simp add: coerce_row_def fillna0_to_numeric)

lemma select_columns_coerce_row:
  "fi_total_loan_usd (select_columns (coerce_row parse r)) = Num (number_or_zero parse (total_loan_usd r))"
  "fi_funded_capacity_mw (select_columns (coerce_row parse r)) =
     Num (number_or_zero parse (funded_capacity_mw r))"
  by (simp_all add: coerce_row_columns select_columns_def)

text \<open>
  Claim C9. \<open>measure_impact\<close> always returns, and the store it leaves differs from the
  caller's only at the table it was given: there each row keeps its index, its place
  and all its columns but \<open>total_loan_usd\<close> and \<open>funded_capacity_mw\<close>, which hold the
  cell's number, or 0 where the cell was missing or did not parse. \<open>main\<close> then passes
  the same object to \<open>create_final_index\<close>: the final index and the CSV file hold, for
  every row of the scored table, the selected columns of the row so changed, with 0
  where financing or capacity was missing.
\<close>

theorem measure_impact_mutates_table:
  "\<exists>st' impact idx.
      measure_impact parse st df 0.8 = Inr (st', impact) \<and>
      impact_then_index parse st df = Inr (st', impact, idx) \<and>
      st' df = map (\<lambda>(i, r). (i, r\<lparr>total_loan_usd := Num (number_or_zero parse (total_loan_usd r)),
                         funded_capacity_mw := Num (number_or_zero parse (funded_capacity_mw r))\<rparr>)) (st df) \<and>
      (\<forall>q. q \<noteq> df \<longrightarrow> st' q = st q) \<and>
      idx = create_final_index (st' df) \<and>
      csv_file idx = map snd (final_index idx) \<and>
      mset (final_index idx) = mset (map (\<lambda>(i, r). (i, select_columns (coerce_row parse r))) (st df)) \<and>
      (\<forall>(i, r) \<in> set (st df).
          (i, select_columns (coerce_row parse r)) \<in> set (final_index idx) \<and>
          select_columns (coerce_row parse r) \<in> set (csv_file idx) \<and>
          (total_loan_usd r = NaN \<longrightarrow> fi_total_loan_usd (select_columns (coerce_row parse r)) = Num 0) \<and>
          (funded_capacity_mw r = NaN \<longrightarrow>
             fi_funded_capacity_mw (select_columns (coerce_row parse r)) = Num 0))"
proof -
  let ?st' = "st(df := map (\<lambda>(i, r). (i, coerce_row parse r)) (st df))"
  let ?idx = "create_final_index (?st' df)"
  from measure_impact_store [of parse st df "0.8"] obtain impact where
    m: "measure_impact parse st df 0.8 = Inr (?st', impact)"
    by blast
  have run: "impact_then_index parse st df = Inr (?st', impact, ?idx)"
    unfolding impact_then_index_def m by simp
  have tab: "?st' df = map (\<lambda>(i, r). (i, r\<lparr>total_loan_usd := Num (number_or_zero parse (total_loan_usd r)),
                         funded_capacity_mw := Num (number_or_zero parse (funded_capacity_mw r))\<rparr>)) (st df)"
    by (simp add: coerce_row_columns)
  have frame: "\<forall>q. q \<noteq> df \<longrightarrow> ?st' q = st q"
    by simp
  have ms: "mset (final_index ?idx) = mset (map (\<lambda>(i, r). (i, select_columns (coerce_row parse r))) (st df))"
    by (simp add: final_index_mset case_prod_unfold o_def)
  have rows: "(i, select_columns (coerce_row parse r)) \<in> set (final_index ?idx) \<and>
          select_columns (coerce_row parse r) \<in> set (csv_file ?idx) \<and>
          (total_loan_usd r = NaN \<longrightarrow> fi_total_loan_usd (select_columns (coerce_row parse r)) = Num 0) \<and>
          (funded_capacity_mw r = NaN \<longrightarrow>
             fi_funded_capacity_mw (select_columns (coerce_row parse r)) = Num 0)"
    if "(i, r) \<in> set (st df)" for i r
  proof -
    from that have "(i, select_columns (coerce_row parse r)) \<in>
        set (map (\<lambda>(i, r). (i, select_columns (coerce_row parse r))) (st df))"
      by force
    then have "(i, select_columns (coerce_row parse r)) \<in># mset (final_index ?idx)"
      unfolding ms by simp
    then have mem: "(i, select_columns (coerce_row parse r)) \<in> set (final_index ?idx)"
      by simp
    then have "select_columns (coerce_row parse r) \<in> set (csv_file ?idx)"
      unfolding csv_file_rows by force
    with mem show ?thesis
      by (simp add: select_columns_coerce_row number_or_zero_def)
  qed
  from m run tab frame ms rows csv_file_rows [of "?st' df"] show ?thesis
    by blast
qed

theorem measure_impact_mutates_table_witness:
  "\<exists>st' impact idx.
      impact_then_index (\<lambda>s. None)
        (\<lambda>q. [(0, example_scored ''P0'' NaN (Str ''n/a'') 0.3), (1, example_scored ''P1'' (Num 150) (Num 50) 0.9)])
        0 = Inr (st', impact, idx) \<and>
      map (\<lambda>(i, r). (i, total_loan_usd r, funded_capacity_mw r)) (st' 0) =
        [(0, Num 0, Num 0), (1, Num 150, Num 50)] \<and>
      map (\<lambda>r. (fi_project_name r, fi_total_loan_usd r, fi_funded_capacity_mw r)) (csv_file idx) =
        [(Str ''P1'', Num 150, Num 50), (Str ''P0'', Num 0, Num 0)]"
proof -
  let ?st = "\<lambda>q::nat. [(0::nat, example_scored ''P0'' NaN (Str ''n/a'') 0.3),
                       (1, example_scored ''P1'' (Num 150) (Num 50) 0.9)]"
  from measure_impact_mutates_table [of "\<lambda>s. None" ?st 0] obtain st' impact idx where
    run: "impact_then_index (\<lambda>s. None) ?st 0 = Inr (st', impact, idx)"
    and tab: "st' 0 = map (\<lambda>(i, r). (i, r\<lparr>total_loan_usd := Num (number_or_zero (\<lambda>s. None) (total_loan_usd r)),
                         funded_capacity_mw := Num (number_or_zero (\<lambda>s. None) (funded_capacity_mw r))\<rparr>)) (?st 0)"
    and idx: "idx = create_final_index (st' 0)"
    by blast
  have t: "st' 0 = [(0, example_scored ''P0'' (Num 0) (Num 0) 0.3),
                    (1, example_scored ''P1'' (Num 150) (Num 50) 0.9)]"
    unfolding tab by (simp add: example_scored_def number_or_zero_def)
  have a: "map (\<lambda>(i, r). (i, total_loan_usd r, funded_capacity_mw r)) (st' 0) =
        [(0, Num 0, Num 0), (1, Num 150, Num 50)]"
    unfolding t by (simp add: example_scored_def)
  have b: "map (\<lambda>r. (fi_project_name r, fi_total_loan_usd r, fi_funded_capacity_mw r)) (csv_file idx) =
        [(Str ''P1'', Num 150, Num 50), (Str ''P0'', Num 0, Num 0)]"
    unfolding idx t
    by (simp add: csv_file_rows final_index_rows sort_values_descending_def select_columns_def
          example_scored_def)
  show ?thesis
    by (rule exI [of _ st'], rule exI [of _ impact], rule exI [of _ idx]) (simp only: run a b)
qed

subsection \<open>Properties of the training step\<close>

lemma on_success_eq_Inr: "on_success r f = Inr y \<longleftrightarrow> (\<exists>v. r = Inr v \<and> f v = Inr y)"
  by (cases r) simp_all

lemma safe_indexing_Inr:
  "safe_indexing xs idx = Inr ys \<Longrightarrow> ys = map (\<lambda>j. xs ! j) idx \<and> set ys \<subseteq> set xs"
  by (auto simp: safe_indexing_def list_all_iff split: if_splits)

lemma train_test_split_Inr:
  assumes "train_test_split sk X y = Inr (X_tr, X_te, y_tr, y_te)"
  shows "X_tr = map (\<lambda>j. X ! j)
                  (take (length X - n_test_samples sk (length X))
                     (drop (n_test_samples sk (length X)) (permutation sk (length X))))"
    and "X_te = map (\<lambda>j. X ! j) (take (n_test_samples sk (length X)) (permutation sk (length X)))"
    and "set X_tr \<subseteq> set X" and "set X_te \<subseteq> set X"
  using assms unfolding train_test_split_def Let_def
  by (auto simp: on_success_eq_Inr split: if_splits dest!: safe_indexing_Inr)

lemma preprocess_Inr:
  assumes "preprocess sk df0 = Inr p"
  shows "eligible_df p = dropna_is_ghost (drop_sentinel df0)"
    and "train_test_split sk (map (\<lambda>(i, r). (i, features_of r)) (eligible_df p))
           (map (\<lambda>(i, r). is_ghost r) (eligible_df p)) =
         Inr (X_train_raw p, X_test_raw p, y_train p, y_test p)"
    and "column_means (X_train_raw p) = Inr (mean_imputer p)"
    and "X_train p = fillna (X_train_raw p) (mean_imputer p)"
    and "X_test p = fillna (X_test_raw p) (mean_imputer p)"
  using assms unfolding preprocess_def Let_def
  by (auto simp: on_success_eq_Inr)

lemma train_ghost_risk_model_Inr:
  assumes "train_ghost_risk_model sk df0 = Inr (metrics, out)"
  shows "\<exists>p model pf. preprocess sk df0 = Inr p \<and>
           fit sk (map snd (X_train p)) (y_train p) = Inr model \<and>
           predict_proba sk model (map snd (X_full p)) = Inr pf \<and>
           list_all (\<lambda>r. 2 \<le> length r) pf \<and>
           length pf = length (eligible_df p) \<and>
           out = set_column add_score (eligible_df p) (map (\<lambda>r. r ! 1) pf)"
  using assms unfolding train_ghost_risk_model_def
  by (auto simp: on_success_eq_Inr column1_def split: if_splits option.splits)

lemma map_fst_fillna: "map fst (fillna X m) = map fst X"
  by (simp add: fillna_def split_beta o_def)

lemma eligible_row_iff:
  "(i, r) \<in> set (dropna_is_ghost (drop_sentinel df0)) \<longleftrightarrow>
     (i, r) \<in> set df0 \<and> ndvi_change_metric r \<noteq> Num 999 \<and> is_ghost r \<noteq> NaN"
  by (auto simp: dropna_is_ghost_def drop_sentinel_def)

lemma set_column_member:
  assumes "length vals = length df" and "(i, r) \<in> set df"
  shows "\<exists>v \<in> set vals. (i, upd v r) \<in> set (set_column upd df vals)"
proof -
  from assms(2) obtain k where k: "k < length df" "df ! k = (i, r)"
    by (auto simp: in_set_conv_nth)
  from k(1) assms(1) have "zip df vals ! k \<in> set (zip df vals)"
    by (intro nth_mem) simp
  with k(1) assms(1) have "(df ! k, vals ! k) \<in> set (zip df vals)"
    by simp
  then have "(\<lambda>((i, r), v). (i, upd v r)) (df ! k, vals ! k) \<in> set (set_column upd df vals)"
    unfolding set_column_def set_map by (rule imageI)
  with k assms(1) show ?thesis
    by (auto intro!: bexI [of _ "vals ! k"])
qed

lemma add_score_columns:
  "ndvi_change_metric (add_score v r) = ndvi_change_metric r"
  "ghost_risk_score (add_score v r) = v"
  by (simp_all add: add_score_def audited.defs scored.defs)

lemma example_train_scores:
  "map_sum id (\<lambda>(m, out). map (\<lambda>(i, r). (i, ghost_risk_score r)) out)
     (train_ghost_risk_model example_sklearn example_audited_table) =
   Inr [(0, 0.75), (1, 0.125), (3, 0.75), (4, 0.125)]"
  by code_simp

lemma example_train_returns:
  "\<exists>metrics out. train_ghost_risk_model example_sklearn example_audited_table = Inr (metrics, out) \<and>
      map (\<lambda>(i, r). (i, ghost_risk_score r)) out = [(0, 0.75), (1, 0.125), (3, 0.75), (4, 0.125)]"
  using example_train_scores
  by (cases "train_ghost_risk_model example_sklearn example_audited_table") auto

lemma example_preprocess_imputer:
  "map_sum id (\<lambda>p. (mean_imputer p, map fst (X_train_raw p), map fst (X_test_raw p)))
     (preprocess example_sklearn example_audited_table) =
   Inr (\<lparr>x_total_loan_usd = Num 150, x_cpi_score = Num 40, x_ndvi_change_metric = Num 0.05\<rparr>,
        [3, 1, 0], [4])"
  by code_simp

lemma example_preprocess_returns:
  "\<exists>p. preprocess example_sklearn example_audited_table = Inr p \<and>
      mean_imputer p = \<lparr>x_total_loan_usd = Num 150, x_cpi_score = Num 40, x_ndvi_change_metric = Num 0.05\<rparr> \<and>
      map fst (X_train_raw p) = [3, 1, 0] \<and> map fst (X_test_raw p) = [4]"
  using example_preprocess_imputer
  by (cases "preprocess example_sklearn example_audited_table") auto

text \<open>
  Claim C3. When \<open>train_ghost_risk_model\<close> returns, no row of the training partition
  (as the split returns it) and no row of the returned table has the sentinel metric
  999.0; and in a table with distinct index labels, the label of a row with the
  sentinel metric is the label of no row of the training partition, before or after
  imputation, and of no row of the returned table.
\<close>

theorem sentinel_rows_excluded:
  assumes "preprocess sk df0 = Inr p"
    and "train_ghost_risk_model sk df0 = Inr (metrics, out)"
    and "distinct (map fst df0)"
    and "(i, r) \<in> set df0"
    and "ndvi_change_metric r = Num 999"
  shows "i \<notin> fst ` set (X_train_raw p) \<and> i \<notin> fst ` set (X_train p) \<and> i \<notin> fst ` set out \<and>
         (\<forall>(j, x) \<in> set (X_train_raw p). x_ndvi_change_metric x \<noteq> Num 999) \<and>
         (\<forall>(j, s) \<in> set out. ndvi_change_metric s \<noteq> Num 999)"
proof -
  let ?E = "dropna_is_ghost (drop_sentinel df0)"
  note pp = preprocess_Inr [OF assms(1)]
  have not_eligible: "i \<notin> fst ` set ?E"
  proof
    assume "i \<in> fst ` set ?E"
    then obtain r' where r': "(i, r') \<in> set ?E" by auto
    then have "(i, r') \<in> set df0" and ne: "ndvi_change_metric r' \<noteq> Num 999"
      by (simp_all add: eligible_row_iff)
    with assms(3,4) have "r' = r"
      by (meson eq_key_imp_eq_value)
    with ne assms(5) show False by simp
  qed
  have train_sub: "set (X_train_raw p) \<subseteq> set (map (\<lambda>(i, r). (i, features_of r)) ?E)"
    using train_test_split_Inr(3) [OF pp(2)] unfolding pp(1) .
  have train_rows: "\<exists>r'. (j, r') \<in> set ?E \<and> x = features_of r'" if "(j, x) \<in> set (X_train_raw p)" for j x
    using that train_sub by auto
  have a: "i \<notin> fst ` set (X_train_raw p)"
  proof
    assume "i \<in> fst ` set (X_train_raw p)"
    then obtain x where "(i, x) \<in> set (X_train_raw p)" by auto
    from train_rows [OF this] have "i \<in> fst ` set ?E" by force
    with not_eligible show False ..
  qed
  have "fst ` set (X_train p) = fst ` set (X_train_raw p)"
    unfolding pp(4) using map_fst_fillna [of "X_train_raw p" "mean_imputer p"]
    by (metis set_map)
  with a have b: "i \<notin> fst ` set (X_train p)" by simp
  from train_ghost_risk_model_Inr [OF assms(2)] assms(1) obtain scores where
    out: "out = set_column add_score (eligible_df p) scores"
    by auto
  have out_rows: "\<exists>r' v. (j, r') \<in> set ?E \<and> s = add_score v r'" if "(j, s) \<in> set out" for j s
    using that set_column_elem [of j s add_score "eligible_df p" scores] unfolding out pp(1) by blast
  have c: "i \<notin> fst ` set out"
  proof
    assume "i \<in> fst ` set out"
    then obtain s where "(i, s) \<in> set out" by auto
    from out_rows [OF this] have "i \<in> fst ` set ?E" by force
    with not_eligible show False ..
  qed
  have d: "\<forall>(j, x) \<in> set (X_train_raw p). x_ndvi_change_metric x \<noteq> Num 999"
  proof (clarify)
    fix j x assume "(j, x) \<in> set (X_train_raw p)" and s: "x_ndvi_change_metric x = Num 999"
    from train_rows [OF this(1)] obtain r' where "(j, r') \<in> set ?E" "x = features_of r'" by blast
    with s show False by (simp add: eligible_row_iff features_of_def)
  qed
  have e: "\<forall>(j, s) \<in> set out. ndvi_change_metric s \<noteq> Num 999"
  proof (clarify)
    fix j s assume "(j, s) \<in> set out" and m: "ndvi_change_metric s = Num 999"
    from out_rows [OF this(1)] obtain r' v where "(j, r') \<in> set ?E" "s = add_score v r'" by blast
    with m show False by (simp add: eligible_row_iff add_score_columns)
  qed
  from a b c d e show ?thesis by blast
qed

theorem sentinel_rows_excluded_witness:
  "\<exists>p metrics out.
      preprocess example_sklearn example_audited_table = Inr p \<and>
      train_ghost_risk_model example_sklearn example_audited_table = Inr (metrics, out) \<and>
      distinct (map fst example_audited_table) \<and>
      (2, example_audited ''P2'' (Num 300) (Num 999) (Num 0)) \<in> set example_audited_table \<and>
      ndvi_change_metric (example_audited ''P2'' (Num 300) (Num 999) (Num 0)) = Num 999 \<and>
      2 \<notin> fst ` set (X_train_raw p) \<and> 2 \<notin> fst ` set (X_train p) \<and> 2 \<notin> fst ` set out \<and>
      map fst (X_train_raw p) = [3, 1, 0] \<and> map fst out = [0, 1, 3, 4]"
proof -
  from example_preprocess_returns obtain p where
    p: "preprocess example_sklearn example_audited_table = Inr p"
    and tr: "map fst (X_train_raw p) = [3, 1, 0]"
    by auto
  from example_train_returns obtain metrics out where
    t: "train_ghost_risk_model example_sklearn example_audited_table = Inr (metrics, out)"
    and sc: "map (\<lambda>(i, r). (i, ghost_risk_score r)) out = [(0, 0.75), (1, 0.125), (3, 0.75), (4, 0.125)]"
    by auto
  have "map fst (map (\<lambda>(i, r). (i, ghost_risk_score r)) out) = [0, 1, 3, 4]"
    unfolding sc by simp
  then have ix: "map fst out = [0, 1, 3, 4]"
    by (simp add: split_beta o_def)
  have d: "distinct (map fst example_audited_table)"
    by (simp add: example_audited_table_def)
  have m: "(2, example_audited ''P2'' (Num 300) (Num 999) (Num 0)) \<in> set example_audited_table"
    by (simp add: example_audited_table_def)
  have s: "ndvi_change_metric (example_audited ''P2'' (Num 300) (Num 999) (Num 0)) = Num 999"
    by (simp add: example_audited_def)
  from sentinel_rows_excluded [OF p t d m s]
  have n: "2 \<notin> fst ` set (X_train_raw p) \<and> 2 \<notin> fst ` set (X_train p) \<and> 2 \<notin> fst ` set out"
    by (elim conjE) (intro conjI)
  show ?thesis
    by (rule exI [of _ p], rule exI [of _ metrics], rule exI [of _ out])
       (intro conjI p t d m s tr ix n [THEN conjunct1] n [THEN conjunct2, THEN conjunct1]
          n [THEN conjunct2, THEN conjunct2])
qed










text \<open>
  Claim C5, as the program has it. When \<open>train_ghost_risk_model\<close> returns and the
  library's class probabilities lie in \<open>[0, 1]\<close>, every input row whose metric is not
  the sentinel 999.0 and whose label \<open>is_ghost\<close> is not missing is in the returned table
  under its index, with all its columns and a score in \<open>[0, 1]\<close> as the new column; the
  returned table has exactly the index of these rows, in order, and every score in it
  lies in \<open>[0, 1]\<close>.
\<close>

theorem eligible_rows_scored:
  assumes "train_ghost_risk_model sk df0 = Inr (metrics, out)"
    and "\<And>m X P. predict_proba sk m X = Inr P \<Longrightarrow> \<forall>row \<in> set P. \<forall>q \<in> set row. 0 \<le> q \<and> q \<le> 1"
    and "(i, r) \<in> set df0"
    and "ndvi_change_metric r \<noteq> Num 999"
    and "is_ghost r \<noteq> NaN"
  shows "(\<exists>s. (i, add_score s r) \<in> set out \<and> 0 \<le> s \<and> s \<le> 1) \<and>
         map fst out = map fst (dropna_is_ghost (drop_sentinel df0)) \<and>
         (\<forall>(j, s) \<in> set out. 0 \<le> ghost_risk_score s \<and> ghost_risk_score s \<le> 1)"
proof -
  let ?E = "dropna_is_ghost (drop_sentinel df0)"
  from train_ghost_risk_model_Inr [OF assms(1)] obtain p model pf where
    p: "preprocess sk df0 = Inr p"
    and q: "predict_proba sk model (map snd (X_full p)) = Inr pf"
    and two: "list_all (\<lambda>r. 2 \<le> length r) pf"
    and l: "length pf = length (eligible_df p)"
    and o: "out = set_column add_score (eligible_df p) (map (\<lambda>r. r ! 1) pf)"
    by blast
  have E: "eligible_df p = ?E"
    by (rule preprocess_Inr(1) [OF p])
  have range: "0 \<le> v \<and> v \<le> 1" if "v \<in> set (map (\<lambda>r. r ! 1) pf)" for v
  proof -
    from that obtain row where row: "row \<in> set pf" "v = row ! 1" by auto
    with two have "1 < length row" by (auto simp: list_all_iff)
    then have "row ! 1 \<in> set row" by (rule nth_mem)
    with assms(2) [OF q] row show ?thesis by blast
  qed
  from assms(3-5) have "(i, r) \<in> set (eligible_df p)"
    by (simp add: E eligible_row_iff)
  from set_column_member [OF _ this, of "map (\<lambda>r. r ! 1) pf" add_score] l
  obtain s where "s \<in> set (map (\<lambda>r. r ! 1) pf)" "(i, add_score s r) \<in> set out"
    unfolding o by auto
  with range have a: "\<exists>s. (i, add_score s r) \<in> set out \<and> 0 \<le> s \<and> s \<le> 1"
    by blast
  have b: "map fst out = map fst ?E"
    unfolding o E [symmetric] using l by (simp add: map_fst_set_column)
  have c: "\<forall>(j, s) \<in> set out. 0 \<le> ghost_risk_score s \<and> ghost_risk_score s \<le> 1"
  proof (clarify)
    fix j s assume "(j, s) \<in> set out"
    then have "(j, s) \<in> set (map (\<lambda>((i, r), v). (i, add_score v r))
                          (zip (eligible_df p) (map (\<lambda>r. r ! 1) pf)))"
      unfolding o set_column_def .
    then obtain r' v where "v \<in> set (map (\<lambda>r. r ! 1) pf)" "s = add_score v r'"
      by (auto dest: set_zip_rightD)
    with range show "0 \<le> ghost_risk_score s \<and> ghost_risk_score s \<le> 1"
      by (simp add: add_score_columns)
  qed
  from a b c show ?thesis by blast
qed

theorem eligible_rows_scored_witness:
  "\<exists>metrics out.
      train_ghost_risk_model example_sklearn example_audited_table = Inr (metrics, out) \<and>
      (1, example_audited ''P1'' (Num 100) (Num 0.1) (Num 0)) \<in> set example_audited_table \<and>
      ndvi_change_metric (example_audited ''P1'' (Num 100) (Num 0.1) (Num 0)) \<noteq> Num 999 \<and>
      is_ghost (example_audited ''P1'' (Num 100) (Num 0.1) (Num 0)) \<noteq> NaN \<and>
      (\<exists>s. (1, add_score s (example_audited ''P1'' (Num 100) (Num 0.1) (Num 0))) \<in> set out \<and>
           0 \<le> s \<and> s \<le> 1) \<and>
      map (\<lambda>(i, r). (i, ghost_risk_score r)) out = [(0, 0.75), (1, 0.125), (3, 0.75), (4, 0.125)]"
proof -
  from example_train_returns obtain metrics out where
    t: "train_ghost_risk_model example_sklearn example_audited_table = Inr (metrics, out)"
    and sc: "map (\<lambda>(i, r). (i, ghost_risk_score r)) out = [(0, 0.75), (1, 0.125), (3, 0.75), (4, 0.125)]"
    by auto
  have lib: "\<forall>row \<in> set P. \<forall>q \<in> set row. 0 \<le> q \<and> q \<le> 1"
    if "predict_proba example_sklearn m X = Inr P" for m X P
    using that by (auto simp: example_sklearn_def)
  have m: "(1, example_audited ''P1'' (Num 100) (Num 0.1) (Num 0)) \<in> set example_audited_table"
    by (simp add: example_audited_table_def)
  have s: "ndvi_change_metric (example_audited ''P1'' (Num 100) (Num 0.1) (Num 0)) \<noteq> Num 999"
    by (simp add: example_audited_def)
  have g: "is_ghost (example_audited ''P1'' (Num 100) (Num 0.1) (Num 0)) \<noteq> NaN"
    by (simp add: example_audited_def)
  have a: "\<exists>s. (1, add_score s (example_audited ''P1'' (Num 100) (Num 0.1) (Num 0))) \<in> set out \<and>
           0 \<le> s \<and> s \<le> 1"
    by (rule eligible_rows_scored [OF t lib m s g, THEN conjunct1])
  show ?thesis
    by (rule exI [of _ metrics], rule exI [of _ out]) (intro conjI t m s g a sc)
qed

text \<open>
  The claim as stated fails: a row whose metric is not the sentinel and whose label is
  missing is removed by the label filter and is not in the returned table.
\<close>

theorem unlabelled_row_not_scored:
  "(5, example_audited ''P5'' (Num 100) (Num 0.1) NaN) \<in> set example_audited_table \<and>
   ndvi_change_metric (example_audited ''P5'' (Num 100) (Num 0.1) NaN) \<noteq> Num 999 \<and>
   map_sum id (\<lambda>(m, out). map fst out) (train_ghost_risk_model example_sklearn example_audited_table) =
     Inr [0, 1, 3, 4] \<and>
   5 \<notin> set [0, 1, 3, 4 :: nat]"
proof -
  have "map_sum id (\<lambda>(m, out). map fst out) (train_ghost_risk_model example_sklearn example_audited_table) =
     Inr [0, 1, 3, 4]"
    by code_simp
  then show ?thesis
    by (simp add: example_audited_table_def example_audited_def)
qed

end
